theory Spec2Isabelle
  imports Complex_Main "HOL-Library.AList" "HOL-Library.Log_Nat"
begin

section \<open>Python strings\<close>

text \<open>
  Strings are lists of characters. The character classes of \<open>str.lower\<close>,
  \<open>str.isalpha\<close>, \<open>str.strip\<close>, \<open>str.title\<close> and of the regular expression class
  \<open>\d\<close> are the ASCII ones; the emoji of the bot's texts are given by their UTF-8 bytes.
\<close>

definition ascii_uppercase :: string where
  "ascii_uppercase = ''ABCDEFGHIJKLMNOPQRSTUVWXYZ''"

definition ascii_lowercase :: string where
  "ascii_lowercase = ''abcdefghijklmnopqrstuvwxyz''"

definition is_upper :: "char \<Rightarrow> bool" where
  "is_upper c = (c \<in> set ascii_uppercase)"

definition is_lower :: "char \<Rightarrow> bool" where
  "is_lower c = (c \<in> set ascii_lowercase)"

definition is_alpha :: "char \<Rightarrow> bool" where
  "is_alpha c = (is_upper c \<or> is_lower c)"

definition is_digit :: "char \<Rightarrow> bool" where
  "is_digit c = (c \<in> set ''0123456789'')"

definition is_space :: "char \<Rightarrow> bool" where
  "is_space c = (c \<in> set [CHR '' '', CHR 0x09, CHR 0x0A, CHR 0x0B, CHR 0x0C, CHR 0x0D,
                            CHR 0x1C, CHR 0x1D, CHR 0x1E, CHR 0x1F])"

definition lower_char :: "char \<Rightarrow> char" where
  "lower_char c = (case map_of (zip ascii_uppercase ascii_lowercase) c of
                     Some l \<Rightarrow> l | None \<Rightarrow> c)"

definition upper_char :: "char \<Rightarrow> char" where
  "upper_char c = (case map_of (zip ascii_lowercase ascii_uppercase) c of
                     Some u \<Rightarrow> u | None \<Rightarrow> c)"

text \<open>\<open>s.lower()\<close>\<close>

definition lower :: "string \<Rightarrow> string" where
  "lower s = map lower_char s"

text \<open>\<open>s.strip()\<close>\<close>

definition strip :: "string \<Rightarrow> string" where
  "strip s = rev (dropWhile is_space (rev (dropWhile is_space s)))"

text \<open>\<open>s.split()\<close>: the maximal runs of non-blank characters.\<close>

fun split_ws_from :: "string \<Rightarrow> string \<Rightarrow> string list" where
  "split_ws_from cur [] = (if cur = [] then [] else [cur])"
| "split_ws_from cur (c # cs) =
     (if is_space c then (if cur = [] then split_ws_from [] cs else cur # split_ws_from [] cs)
      else split_ws_from (cur @ [c]) cs)"

definition split_ws :: "string \<Rightarrow> string list" where
  "split_ws s = split_ws_from [] s"

text \<open>\<open>s.split(sep)\<close> for a separator of one character: never an empty list.\<close>

fun split_on :: "char \<Rightarrow> string \<Rightarrow> string list" where
  "split_on sep [] = [[]]"
| "split_on sep (c # cs) =
     (if c = sep then [] # split_on sep cs
      else (case split_on sep cs of
              [] \<Rightarrow> [[c]]
            | p # ps \<Rightarrow> (c # p) # ps))"

text \<open>\<open>s.split(sep, 1)\<close>: the part before the first separator, and the rest if there is one.\<close>

definition split_once :: "char \<Rightarrow> string \<Rightarrow> string list" where
  "split_once sep s =
     (if sep \<in> set s then [takeWhile (\<lambda>c. c \<noteq> sep) s, tl (dropWhile (\<lambda>c. c \<noteq> sep) s)]
      else [s])"

text \<open>\<open>s.replace(old, new)\<close> for \<open>old\<close> of one character.\<close>

definition replace :: "char \<Rightarrow> string \<Rightarrow> string \<Rightarrow> string" where
  "replace old new s = concat (map (\<lambda>c. if c = old then new else [c]) s)"

text \<open>\<open>s.isalpha()\<close>\<close>

definition isalpha :: "string \<Rightarrow> bool" where
  "isalpha s = (s \<noteq> [] \<and> list_all is_alpha s)"

text \<open>\<open>s.title()\<close>: a letter is upper case after a non-letter, lower case after a letter.\<close>

fun title_from :: "bool \<Rightarrow> string \<Rightarrow> string" where
  "title_from prev [] = []"
| "title_from prev (c # cs) =
     (if is_alpha c then (if prev then lower_char c else upper_char c) # title_from True cs
      else c # title_from False cs)"

definition title :: "string \<Rightarrow> string" where
  "title s = title_from False s"

text \<open>\<open>sep.join(xs)\<close>\<close>

fun join :: "string \<Rightarrow> string list \<Rightarrow> string" where
  "join sep [] = []"
| "join sep [x] = x"
| "join sep (x # y # ys) = x @ sep @ join sep (y # ys)"

text \<open>\<open>k in s\<close>: \<open>k\<close> is a contiguous part of \<open>s\<close>.\<close>

fun starts_with :: "string \<Rightarrow> string \<Rightarrow> bool" where
  "starts_with [] s = True"
| "starts_with (k # ks) [] = False"
| "starts_with (k # ks) (c # cs) = (k = c \<and> starts_with ks cs)"

fun py_in :: "string \<Rightarrow> string \<Rightarrow> bool" where
  "py_in k [] = (k = [])"
| "py_in k (c # cs) = (starts_with k (c # cs) \<or> py_in k cs)"

text \<open>\<open>str(n)\<close> for a non-negative integer.\<close>

fun str_nat :: "nat \<Rightarrow> string" where
  "str_nat n =
     (if n < 10 then [''0123456789'' ! n] else str_nat (n div 10) @ [''0123456789'' ! (n mod 10)])"

text \<open>Python's list indexing \<open>xs[i]\<close> for \<open>i \<ge> 0\<close>, and the assignment \<open>xs[i] = v\<close>.\<close>

datatype py_error = KeyError | IndexError | ValueError

definition index :: "'a list \<Rightarrow> nat \<Rightarrow> py_error + 'a" where
  "index xs i = (if i < length xs then Inr (xs ! i) else Inl IndexError)"

definition set_index :: "'a list \<Rightarrow> nat \<Rightarrow> 'a \<Rightarrow> py_error + 'a list" where
  "set_index xs i v = (if i < length xs then Inr (xs[i := v]) else Inl IndexError)"

section \<open>Regular expressions\<close>

text \<open>
  The patterns of the program are built from character classes, sequence, alternative and
  repetition; matching is by derivatives. \<open>re.match\<close> anchors the pattern at the start of
  the string only; the patterns that end in \<open>$\<close> are applied to stripped strings, which
  have no final newline, so for them \<open>$\<close> is the end of the string.
\<close>

datatype regex =
    Void
  | Empty
  | Class "char \<Rightarrow> bool"
  | Seq regex regex
  | Alt regex regex
  | Star regex

fun nullable :: "regex \<Rightarrow> bool" where
  "nullable Void = False"
| "nullable Empty = True"
| "nullable (Class p) = False"
| "nullable (Seq r s) = (nullable r \<and> nullable s)"
| "nullable (Alt r s) = (nullable r \<or> nullable s)"
| "nullable (Star r) = True"

fun deriv :: "char \<Rightarrow> regex \<Rightarrow> regex" where
  "deriv c Void = Void"
| "deriv c Empty = Void"
| "deriv c (Class p) = (if p c then Empty else Void)"
| "deriv c (Seq r s) =
     (if nullable r then Alt (Seq (deriv c r) s) (deriv c s) else Seq (deriv c r) s)"
| "deriv c (Alt r s) = Alt (deriv c r) (deriv c s)"
| "deriv c (Star r) = Seq (deriv c r) (Star r)"

text \<open>The whole string matches the pattern.\<close>

fun full_match :: "regex \<Rightarrow> string \<Rightarrow> bool" where
  "full_match r [] = nullable r"
| "full_match r (c # cs) = full_match (deriv c r) cs"

text \<open>Some prefix of the string matches the pattern: \<open>re.match\<close> without \<open>$\<close>.\<close>

fun prefix_match :: "regex \<Rightarrow> string \<Rightarrow> bool" where
  "prefix_match r [] = nullable r"
| "prefix_match r (c # cs) = (nullable r \<or> prefix_match (deriv c r) cs)"

definition Plus :: "regex \<Rightarrow> regex" where
  "Plus r = Seq r (Star r)"

definition Opt :: "regex \<Rightarrow> regex" where
  "Opt r = Alt r Empty"

definition Lit :: "char \<Rightarrow> regex" where
  "Lit c = Class (\<lambda>x. x = c)"

section \<open>Floating point numbers\<close>

text \<open>
  \<open>float(s)\<close> is the binary64 number nearest to the decimal number that \<open>s\<close> denotes, the
  even one of two nearest, and \<open>inf\<close> from \<open>2 ^ 1024\<close> on. The program reads experience
  values with it, and compares them with 0, 2, 5 and 50. The conversion is given for the
  strings made of digits with an optional fraction, between optional blanks: no other string
  passes the experience step's pattern, and no other string is stored as experience. What
  \<open>float\<close> does on other strings (signs, exponents, \<open>inf\<close>, \<open>nan\<close>, and
  \<open>ValueError\<close> on the rest) is left out: here they all give \<open>ValueError\<close>.
\<close>

datatype pyfloat = Finite rat | Infinity

text \<open>\<open>p / q\<close> rounded to the nearest natural number, a tie to the even one.\<close>

definition round_half_even :: "nat \<Rightarrow> nat \<Rightarrow> nat" where
  "round_half_even p q =
     (let f = p div q; r = p mod q
      in if 2 * r < q then f
         else if q < 2 * r then f + 1
         else if even f then f else f + 1)"

text \<open>The integer \<open>e\<close> with \<open>2 ^ e \<le> m / d < 2 ^ (e + 1)\<close>, for positive \<open>m\<close> and \<open>d\<close>.\<close>

definition floor_log2 :: "nat \<Rightarrow> nat \<Rightarrow> int" where
  "floor_log2 m d =
     (let k = int (floorlog 2 m) - int (floorlog 2 d)
      in if (if 0 \<le> k then d * 2 ^ nat k \<le> m else d \<le> m * 2 ^ nat (- k)) then k else k - 1)"

text \<open>
  \<open>m / d\<close> as a binary64 number: 53 significant bits, the exponent of the leading bit
  between \<open>-1022\<close> and \<open>1023\<close>, smaller numbers in steps of \<open>2 ^ -1074\<close>.
\<close>

definition binary64 :: "nat \<Rightarrow> nat \<Rightarrow> pyfloat" where
  "binary64 m d =
     (if m = 0 then Finite 0
      else
        let e = max (floor_log2 m d) (- 1022);
            sh = 52 - e;
            n = (if 0 \<le> sh then round_half_even (m * 2 ^ nat sh) d
                 else round_half_even m (d * 2 ^ nat (- sh)))
        in if 1023 < e \<or> (e = 1023 \<and> n = 2 ^ 53) then Infinity
           else if 0 \<le> sh then Finite (of_nat n / 2 ^ nat sh)
           else Finite (of_nat n * 2 ^ nat (- sh)))"

definition digit_val :: "char \<Rightarrow> nat" where
  "digit_val c = of_char c - 48"

definition nat_of_digits :: "string \<Rightarrow> nat" where
  "nat_of_digits ds = foldl (\<lambda>a c. 10 * a + digit_val c) 0 ds"

definition decimal_re :: regex where
  "decimal_re = Seq (Plus (Class is_digit)) (Opt (Seq (Lit CHR ''.'') (Plus (Class is_digit))))"

text \<open>Numerator and denominator of the decimal number \<open>digits[.digits]\<close>.\<close>

definition decimal_num :: "string \<Rightarrow> nat" where
  "decimal_num t =
     nat_of_digits (takeWhile (\<lambda>c. c \<noteq> CHR ''.'') t @ drop 1 (dropWhile (\<lambda>c. c \<noteq> CHR ''.'') t))"

definition decimal_den :: "string \<Rightarrow> nat" where
  "decimal_den t = 10 ^ length (drop 1 (dropWhile (\<lambda>c. c \<noteq> CHR ''.'') t))"

definition py_float :: "string \<Rightarrow> py_error + pyfloat" where
  "py_float s =
     (let t = strip s
      in if full_match decimal_re t then Inr (binary64 (decimal_num t) (decimal_den t))
         else Inl ValueError)"

text \<open>The comparisons \<open>f == c\<close>, \<open>f < c\<close>, \<open>f <= c\<close> and \<open>c <= f\<close> with an integer constant.\<close>

fun float_eq :: "pyfloat \<Rightarrow> rat \<Rightarrow> bool" where
  "float_eq (Finite r) c = (r = c)"
| "float_eq Infinity c = False"

fun float_lt :: "pyfloat \<Rightarrow> rat \<Rightarrow> bool" where
  "float_lt (Finite r) c = (r < c)"
| "float_lt Infinity c = False"

fun float_le :: "pyfloat \<Rightarrow> rat \<Rightarrow> bool" where
  "float_le (Finite r) c = (r \<le> c)"
| "float_le Infinity c = False"

fun float_ge :: "pyfloat \<Rightarrow> rat \<Rightarrow> bool" where
  "float_ge (Finite r) c = (c \<le> r)"
| "float_ge Infinity c = True"

section \<open>The language model client\<close>

text \<open>
  The program calls the client at four places. A call returns the text of the completion or
  raises; each value below is what the call returns for the values the request is built
  from (\<open>None\<close>: the call raises). The evaluation request is made with
  \<open>response_format={"type": "json_object"}\<close>, and the program parses the completion with
  \<open>json.loads\<close>: the result is a JSON object, a dictionary, whose values are given by their
  texts, or an exception. \<open>repr_float\<close> is Python's printing of a floating point number
  in a format string.
\<close>

type_synonym json = "(string \<times> string) list"

record message =
  role :: string
  content :: string

record env =
  validation_completion :: "string \<Rightarrow> string \<Rightarrow> string option"
  chat_completion :: "message list \<Rightarrow> string \<Rightarrow> string option"
  questions_completion :: "string \<Rightarrow> string \<Rightarrow> string option"
  evaluation_completion :: "string \<Rightarrow> string \<Rightarrow> string \<Rightarrow> string \<Rightarrow> string \<Rightarrow> json option"
  repr_float :: "pyfloat \<Rightarrow> string"

definition validate_text_input_with_ai :: "env \<Rightarrow> string \<Rightarrow> string \<Rightarrow> bool" where
  "validate_text_input_with_ai w user_input field_name =
     (case validation_completion w user_input field_name of
        Some reply \<Rightarrow> py_in ''yes'' (lower (strip reply))
      | None \<Rightarrow> 2 < length user_input)"

section \<open>Constants and data steps\<close>

datatype phase =
  GREETING | DATA_COLLECTION | DATA_CONFIRMATION | TECHNICAL_QUESTIONS | CONCLUSION | ENDED

definition EXIT_KEYWORDS :: "string list" where
  "EXIT_KEYWORDS = [''bye'', ''goodbye'', ''exit'', ''quit'', ''end'', ''stop'', ''finish'',
                    ''done'', ''thanks'', ''thank you'']"

record data_step =
  field :: string
  prompt :: string
  validation :: "env \<Rightarrow> string \<Rightarrow> bool"
  error_msg :: string

definition name_validation :: "string \<Rightarrow> bool" where
  "name_validation x =
     (2 \<le> length (split_ws (strip x)) \<and>
      list_all (\<lambda>part. isalpha (replace CHR 0x27 [] (replace CHR 0x2D [] part)))
        (split_ws (strip x)))"

definition email_local_char :: "char \<Rightarrow> bool" where
  "email_local_char c = (is_alpha c \<or> is_digit c \<or> c \<in> set ''._%+-'')"

definition email_domain_char :: "char \<Rightarrow> bool" where
  "email_domain_char c = (is_alpha c \<or> is_digit c \<or> c \<in> set ''.-'')"

definition email_re :: regex where
  "email_re =
     Seq (Plus (Class email_local_char))
       (Seq (Lit CHR ''@'')
          (Seq (Plus (Class email_domain_char))
             (Seq (Lit CHR ''.'') (Seq (Class is_alpha) (Plus (Class is_alpha))))))"

definition email_validation :: "string \<Rightarrow> bool" where
  "email_validation x = full_match email_re (strip x)"

definition phone_validation :: "string \<Rightarrow> bool" where
  "phone_validation x = (10 \<le> length (filter is_digit x))"

definition experience_validation :: "string \<Rightarrow> bool" where
  "experience_validation x =
     (full_match decimal_re (strip x) \<and>
      (case py_float (strip x) of
         Inr f \<Rightarrow> float_ge f 0 \<and> float_le f 50
       | Inl e \<Rightarrow> False))"

definition DATA_STEPS :: "(nat \<times> data_step) list" where
  "DATA_STEPS =
     [(1, \<lparr>field = ''name'', prompt = ''What's your full name?'',
           validation = (\<lambda>w x. name_validation x),
           error_msg = ''Please provide your complete full name (first and last name).''\<rparr>),
      (2, \<lparr>field = ''email'', prompt = ''Could you please share your email address?'',
           validation = (\<lambda>w x. email_validation x),
           error_msg = ''Please provide a valid email address.''\<rparr>),
      (3, \<lparr>field = ''phone'', prompt = ''What's your phone number?'',
           validation = (\<lambda>w x. phone_validation x),
           error_msg = ''Please provide a valid phone number with at least 10 digits.''\<rparr>),
      (4, \<lparr>field = ''experience'',
           prompt = ''How many years of professional experience do you have?'',
           validation = (\<lambda>w x. experience_validation x),
           error_msg =
             ''Please provide your experience in years (e.g., 2, 3.5, 0 for fresher).''\<rparr>),
      (5, \<lparr>field = ''position'', prompt = ''What position are you interested in applying for?'',
           validation = (\<lambda>w x. validate_text_input_with_ai w x ''Job Position''),
           error_msg = ''Please provide a valid and clear job position.''\<rparr>),
      (6, \<lparr>field = ''location'',
           prompt =
             ''What's your preferred work location? (or are you open to remote work?)'',
           validation = (\<lambda>w x. validate_text_input_with_ai w x ''Work Location''),
           error_msg = ''Please provide a valid location or specify 'remote'.''\<rparr>),
      (7, \<lparr>field = ''tech_stack'',
           prompt =
             ''What programming languages, frameworks, and technologies are you proficient in?'',
           validation = (\<lambda>w x. validate_text_input_with_ai w x ''Technology Stack''),
           error_msg = ''Please list the technical skills you are proficient in.''\<rparr>)]"

text \<open>\<open>DATA_STEPS[k]['prompt']\<close> for a key of the table.\<close>

definition step_prompt :: "nat \<Rightarrow> string" where
  "step_prompt k = (case map_of DATA_STEPS k of Some st \<Rightarrow> prompt st | None \<Rightarrow> [])"

section \<open>Answer evaluation, replies and question generation\<close>

definition evaluate_technical_answer ::
  "env \<Rightarrow> string \<Rightarrow> string \<Rightarrow> string \<Rightarrow> string \<Rightarrow> string \<Rightarrow> json" where
  "evaluate_technical_answer w question answer candidate_name candidate_experience_level
       tech_stack =
     (case evaluation_completion w question answer candidate_name candidate_experience_level
             tech_stack of
        Some result \<Rightarrow> result
      | None \<Rightarrow>
            [(''feedback'',
              ''Great, thank you for your response, '' @
              (if candidate_name \<noteq> [] then candidate_name else ''Anuj'') @ ''!''),
             (''explanation'', ''Let's move on to the next question.'')])"

text \<open>\<open>d.get(key, default)\<close> on the dictionary that \<open>json.loads\<close> returned.\<close>

definition json_get :: "json \<Rightarrow> string \<Rightarrow> string \<Rightarrow> string" where
  "json_get j key dflt = (case map_of j key of Some v \<Rightarrow> v | None \<Rightarrow> dflt)"

definition base_prompt :: string where
  "base_prompt = ''You are Maya, a friendly, warm, and professional hiring assistant for TalentScout. You are encouraging, empathetic, and make candidates feel comfortable and valued. Always address the candidate by their name if you know it.''"

definition get_system_prompt :: "phase \<Rightarrow> string" where
  "get_system_prompt ph =
     (if ph = GREETING then
        base_prompt @ '' Greet the candidate warmly, introduce yourself, explain the process (info gathering, technical questions, next steps), and ask for their full name to begin in a very friendly manner.''
      else if ph = CONCLUSION then
        base_prompt @ '' Thank the candidate warmly for their time. Let them know they did great, their info is recorded, the team will review it, and they'll hear back in 2-3 business days. End on an encouraging and positive note, wishing them luck.''
      else base_prompt)"

definition smiling_face :: string where
  "smiling_face = [CHR 0xF0, CHR 0x9F, CHR 0x98, CHR 0x8A]"

definition waving_hand :: string where
  "waving_hand = [CHR 0xF0, CHR 0x9F, CHR 0x91, CHR 0x8B]"

definition party_popper :: string where
  "party_popper = [CHR 0xF0, CHR 0x9F, CHR 0x8E, CHR 0x89]"

definition clipboard :: string where
  "clipboard = [CHR 0xF0, CHR 0x9F, CHR 0x93, CHR 0x8B]"

definition get_ai_response :: "env \<Rightarrow> message list \<Rightarrow> string \<Rightarrow> string" where
  "get_ai_response w msgs system_prompt =
     (case chat_completion w msgs system_prompt of
        Some reply \<Rightarrow> reply
      | None \<Rightarrow>
          ''I'm experiencing some technical difficulties right now. Could we try that again? '' @
          smiling_face)"

definition fallback_questions :: "string list" where
  "fallback_questions =
     [''Tell me about a challenging project you've worked on.'',
      ''How do you approach debugging?'',
      ''What coding best practices do you follow?'',
      ''How do you stay updated with new technologies?'',
      ''Describe your experience with version control.'']"

definition experience_level :: "pyfloat \<Rightarrow> string" where
  "experience_level f =
     (if float_lt f 2 then ''entry-level''
      else if float_lt f 5 then ''mid-level'' else ''senior-level'')"

definition numbered_re :: regex where
  "numbered_re = Seq (Class is_digit) (Lit CHR ''.'')"

text \<open>
  The list comprehension over the lines of the completion: \<open>None\<close> when
  \<open>line.split('.', 1)[1]\<close> raises.
\<close>

fun parse_questions :: "string list \<Rightarrow> string list option" where
  "parse_questions [] = Some []"
| "parse_questions (line # rest) =
     (if line \<noteq> [] \<and> prefix_match numbered_re (strip line) then
        (case split_once CHR ''.'' line of
           [a, b] \<Rightarrow> map_option (\<lambda>qs. strip b # qs) (parse_questions rest)
         | _ \<Rightarrow> None)
      else parse_questions rest)"

definition generate_technical_questions :: "env \<Rightarrow> string \<Rightarrow> string \<Rightarrow> string list" where
  "generate_technical_questions w tech_stack experience =
     (case py_float experience of
        Inl e \<Rightarrow> fallback_questions
      | Inr f \<Rightarrow>
          (case questions_completion w (experience_level f) tech_stack of
             None \<Rightarrow> fallback_questions
           | Some reply \<Rightarrow>
               (case parse_questions (split_on CHR 0x0A reply) of
                  None \<Rightarrow> fallback_questions
                | Some questions \<Rightarrow>
                    if length questions = 5 then take 5 questions else fallback_questions)))"

section \<open>Session state\<close>

text \<open>
  \<open>st.session_state\<close> holds eight keys. A key may be absent: the button that starts a new
  session deletes every key, and \<open>initialize_session_state\<close>, which every run of the script
  calls first, sets the absent ones.
\<close>

record session_state =
  candidate_data_key :: "(string \<times> string) list option"
  current_step_key :: "nat option"
  conversation_phase_key :: "phase option"
  technical_questions_key :: "string list option"
  technical_answers_key :: "string list option"
  current_question_index_key :: "nat option"
  retry_count_key :: "nat option"
  messages_key :: "message list option"

definition initialize_session_state :: "session_state \<Rightarrow> session_state" where
  "initialize_session_state st =
     \<lparr>candidate_data_key =
        (case candidate_data_key st of
           None \<Rightarrow> Some [(''name'', []), (''email'', []), (''phone'', []), (''experience'', []),
                           (''position'', []), (''location'', []), (''tech_stack'', [])]
         | Some v \<Rightarrow> Some v),
      current_step_key = (case current_step_key st of None \<Rightarrow> Some 1 | Some v \<Rightarrow> Some v),
      conversation_phase_key =
        (case conversation_phase_key st of None \<Rightarrow> Some GREETING | Some v \<Rightarrow> Some v),
      technical_questions_key =
        (case technical_questions_key st of None \<Rightarrow> Some [] | Some v \<Rightarrow> Some v),
      technical_answers_key =
        (case technical_answers_key st of None \<Rightarrow> Some [] | Some v \<Rightarrow> Some v),
      current_question_index_key =
        (case current_question_index_key st of None \<Rightarrow> Some 0 | Some v \<Rightarrow> Some v),
      retry_count_key = (case retry_count_key st of None \<Rightarrow> Some 0 | Some v \<Rightarrow> Some v),
      messages_key = (case messages_key st of None \<Rightarrow> Some [] | Some v \<Rightarrow> Some v)\<rparr>"

text \<open>The state in which every key is present, as the code after the initialization reads it.\<close>

record session =
  candidate_data :: "(string \<times> string) list"
  current_step :: nat
  conversation_phase :: phase
  technical_questions :: "string list"
  technical_answers :: "string list"
  current_question_index :: nat
  retry_count :: nat
  messages :: "message list"

definition state_of :: "session \<Rightarrow> session_state" where
  "state_of s =
     \<lparr>candidate_data_key = Some (candidate_data s),
      current_step_key = Some (current_step s),
      conversation_phase_key = Some (conversation_phase s),
      technical_questions_key = Some (technical_questions s),
      technical_answers_key = Some (technical_answers s),
      current_question_index_key = Some (current_question_index s),
      retry_count_key = Some (retry_count s),
      messages_key = Some (messages s)\<rparr>"

definition session_of :: "session_state \<Rightarrow> session option" where
  "session_of st =
     (case (candidate_data_key st, current_step_key st, conversation_phase_key st,
            technical_questions_key st, technical_answers_key st,
            current_question_index_key st, retry_count_key st, messages_key st) of
        (Some cd, Some step, Some ph, Some qs, Some ans, Some qi, Some rc, Some ms) \<Rightarrow>
          Some \<lparr>candidate_data = cd, current_step = step, conversation_phase = ph,
                technical_questions = qs, technical_answers = ans,
                current_question_index = qi, retry_count = rc, messages = ms\<rparr>
      | _ \<Rightarrow> None)"

text \<open>\<open>for key in list(st.session_state.keys()): del st.session_state[key]\<close>\<close>

definition delete_all_keys :: "session_state \<Rightarrow> session_state" where
  "delete_all_keys st =
     \<lparr>candidate_data_key = None, current_step_key = None, conversation_phase_key = None,
      technical_questions_key = None, technical_answers_key = None,
      current_question_index_key = None, retry_count_key = None, messages_key = None\<rparr>"

text \<open>
  The button of the ended phase: it is shown only there; it deletes the keys and runs the
  script again, which initializes the state.
\<close>

definition start_new_interview_session :: "session \<Rightarrow> session option" where
  "start_new_interview_session s =
     (if conversation_phase s = ENDED
      then session_of (initialize_session_state (delete_all_keys (state_of s)))
      else None)"

text \<open>The state of a session that starts: nothing is stored yet.\<close>

definition fresh_session :: "session option" where
  "fresh_session =
     session_of
       (initialize_session_state
          \<lparr>candidate_data_key = None, current_step_key = None, conversation_phase_key = None,
           technical_questions_key = None, technical_answers_key = None,
           current_question_index_key = None, retry_count_key = None, messages_key = None\<rparr>)"

section \<open>The turn handler\<close>

text \<open>
  A branch of the handler ends with the state and the bot's response, or raises; the state
  is then the one reached when the exception is raised.
\<close>

datatype branch = Reply session string | Raise py_error session

datatype outcome = Done session string | Raised py_error session | No_Turn

text \<open>\<open>d[key]\<close>\<close>

definition lookup :: "(string \<times> string) list \<Rightarrow> string \<Rightarrow> py_error + string" where
  "lookup d key = (case map_of d key of Some v \<Rightarrow> Inr v | None \<Rightarrow> Inl KeyError)"

definition candidate_first_name :: "(string \<times> string) list \<Rightarrow> string" where
  "candidate_first_name cd =
     (let candidate_name = (case map_of cd ''name'' of Some v \<Rightarrow> v | None \<Rightarrow> ''there'')
      in if candidate_name \<noteq> [] then hd (split_on CHR '' '' candidate_name) else ''there'')"

definition has_exit_keyword :: "string \<Rightarrow> bool" where
  "has_exit_keyword input = list_ex (\<lambda>keyword. py_in keyword (lower input)) EXIT_KEYWORDS"

definition farewell :: "string \<Rightarrow> string" where
  "farewell first = ''Thank you for your time! Best of luck, '' @ first @ ''! '' @ waving_hand"

definition experience_msg :: "env \<Rightarrow> pyfloat \<Rightarrow> string" where
  "experience_msg w experience_val =
     (if float_eq experience_val 0 then
        ''With '' @ str_nat 0 @ '' years of experience, you're just starting out! ''
      else if float_lt experience_val 2 then
        ''With '' @ repr_float w experience_val @ '' years of experience, that's a great start! ''
      else if float_lt experience_val 5 then
        ''With '' @ repr_float w experience_val @
        '' years of experience, you're building a solid foundation! ''
      else
        ''With '' @ repr_float w experience_val @
        '' years of experience, you have significant expertise! '')"

text \<open>
  The personalized response after an accepted step, from the data with the new value stored;
  it stays empty after step 7.
\<close>

definition acknowledgement ::
  "env \<Rightarrow> (string \<times> string) list \<Rightarrow> nat \<Rightarrow> string \<Rightarrow> py_error + string" where
  "acknowledgement w cd step first =
     (if step = 1 then
        Inr (''Hi '' @ first @ ''! Thanks for sharing your full name. Next, '' @ step_prompt 2)
      else if step = 2 then
        (case lookup cd ''email'' of
           Inl e \<Rightarrow> Inl e
         | Inr email \<Rightarrow>
             Inr (''Got it, '' @ first @ ''! Your email address is '' @ email @ ''. Next, '' @
                  step_prompt 3))
      else if step = 3 then
        (case lookup cd ''phone'' of
           Inl e \<Rightarrow> Inl e
         | Inr phone \<Rightarrow>
             Inr (first @ ''! Your phone number is '' @ phone @ ''. Next, '' @ step_prompt 4))
      else if step = 4 then
        (case lookup cd ''experience'' of
           Inl e \<Rightarrow> Inl e
         | Inr experience \<Rightarrow>
             (case py_float experience of
                Inl e \<Rightarrow> Inl e
              | Inr experience_val \<Rightarrow>
                  Inr (first @ ''! '' @ experience_msg w experience_val @ ''Next, '' @
                       step_prompt 5)))
      else if step = 5 then
        (case lookup cd ''position'' of
           Inl e \<Rightarrow> Inl e
         | Inr position \<Rightarrow>
             Inr (first @ ''! You're interested in a '' @ position @
                  '' position. That's great! Next, '' @ step_prompt 6))
      else if step = 6 then
        (case lookup cd ''position'' of
           Inl e \<Rightarrow> Inl e
         | Inr position \<Rightarrow>
             (case lookup cd ''location'' of
                Inl e \<Rightarrow> Inl e
              | Inr location \<Rightarrow>
                  Inr (first @ ''! You're looking for a '' @ position @ '' opportunity in '' @
                       location @ ''. Got it! Next, '' @ step_prompt 7)))
      else Inr [])"

definition summary_line :: "string \<times> string \<Rightarrow> string" where
  "summary_line kv = ''- **'' @ title (replace CHR ''_'' '' '' (fst kv)) @ '':** '' @ snd kv"

definition data_summary :: "(string \<times> string) list \<Rightarrow> string" where
  "data_summary cd = join [CHR 0x0A] (map summary_line (filter (\<lambda>kv. snd kv \<noteq> []) cd))"

definition confirmation_request :: "string \<Rightarrow> (string \<times> string) list \<Rightarrow> string" where
  "confirmation_request first cd =
     ''Alright, '' @ first @
     ''! We've gathered all your information. Does this look correct?\<newline>\<newline>'' @
     data_summary cd @
     ''\<newline>\<newline>Please type 'yes' to confirm or tell me what to change.''"

definition retry_request :: "string \<Rightarrow> data_step \<Rightarrow> string" where
  "retry_request first st =
     ''I need a bit more clarity, '' @ first @ ''. '' @ error_msg st @
     '' Could you please try again? '' @ smiling_face"

definition data_collection :: "env \<Rightarrow> session \<Rightarrow> string \<Rightarrow> string \<Rightarrow> branch" where
  "data_collection w s first input =
     (case map_of DATA_STEPS (current_step s) of
        None \<Rightarrow> Raise KeyError s
      | Some st \<Rightarrow>
          if validation st w input then
            let s2 = s\<lparr>candidate_data := AList.update (field st) input (candidate_data s)\<rparr>
            in (case acknowledgement w (candidate_data s2) (current_step s2) first of
                  Inl e \<Rightarrow> Raise e s2
                | Inr bot_response \<Rightarrow>
                    let s3 = s2\<lparr>current_step := current_step s2 + 1\<rparr>
                    in if length DATA_STEPS < current_step s3 then
                         Reply (s3\<lparr>conversation_phase := DATA_CONFIRMATION\<rparr>)
                           (confirmation_request first (candidate_data s3))
                       else Reply s3 bot_response)
          else Reply s (retry_request first st))"

definition is_affirmative :: "string \<Rightarrow> bool" where
  "is_affirmative input =
     list_ex (\<lambda>word. py_in word (lower input)) [''yes'', ''correct'', ''confirm'', ''proceed'']"

definition first_question_msg :: "string \<Rightarrow> string \<Rightarrow> string \<Rightarrow> string \<Rightarrow> string" where
  "first_question_msg first tech_stack_display position_display question =
     first @ ''! You're familiar with '' @ tech_stack_display @
     '', which is a great combination for '' @ position_display @ ''. '' @
     ''Next, I'll ask you some technical questions to assess your skills. Please answer them one by one. '' @
     ''Here's your first question:\<newline>\<newline>**Question 1:** '' @ question"

definition data_confirmation :: "env \<Rightarrow> session \<Rightarrow> string \<Rightarrow> string \<Rightarrow> branch" where
  "data_confirmation w s first input =
     (if is_affirmative input then
        (case lookup (candidate_data s) ''tech_stack'' of
           Inl e \<Rightarrow> Raise e s
         | Inr tech_stack \<Rightarrow>
             (case lookup (candidate_data s) ''experience'' of
                Inl e \<Rightarrow> Raise e s
              | Inr experience \<Rightarrow>
                  let questions = generate_technical_questions w tech_stack experience;
                      s2 = s\<lparr>technical_questions := questions,
                             technical_answers := replicate (length questions) [],
                             conversation_phase := TECHNICAL_QUESTIONS\<rparr>
                  in (case lookup (candidate_data s2) ''position'' of
                        Inl e \<Rightarrow> Raise e s2
                      | Inr position \<Rightarrow>
                          (case index (technical_questions s2) 0 of
                             Inl e \<Rightarrow> Raise e s2
                           | Inr question \<Rightarrow>
                               Reply s2 (first_question_msg first tech_stack position question)))))
      else Reply s (''No problem, '' @ first @ ''! What information would you like to change?''))"

definition next_question_msg :: "string \<Rightarrow> nat \<Rightarrow> string \<Rightarrow> string" where
  "next_question_msg first i next_question =
     ''\<newline>\<newline>---\<newline>\<newline>Ready for the next one, '' @ first @
     ''?\<newline>\<newline>**Question '' @ str_nat (i + 1) @ '':** '' @ next_question"

definition completion_msg :: "string \<Rightarrow> string" where
  "completion_msg first =
     ''\<newline>\<newline>---\<newline>\<newline>'' @ party_popper @ '' **Fantastic, '' @ first @
     ''!** You've completed all the technical questions! You did really well, and I appreciate you talking through them with me. Let me give you information about the next steps. '' @
     clipboard"

definition technical_questions_turn :: "env \<Rightarrow> session \<Rightarrow> string \<Rightarrow> string \<Rightarrow> branch" where
  "technical_questions_turn w s first input =
     (case index (technical_questions s) (current_question_index s) of
        Inl e \<Rightarrow> Raise e s
      | Inr current_question \<Rightarrow>
      (case lookup (candidate_data s) ''experience'' of
        Inl e \<Rightarrow> Raise e s
      | Inr experience \<Rightarrow>
      (case py_float experience of
        Inl e \<Rightarrow> Raise e s
      | Inr f \<Rightarrow>
      (case lookup (candidate_data s) ''tech_stack'' of
        Inl e \<Rightarrow> Raise e s
      | Inr tech_stack \<Rightarrow>
      let evaluation =
            evaluate_technical_answer w current_question input first (experience_level f)
              tech_stack;
          feedback =
            json_get evaluation ''feedback'' (''Thanks for your answer, '' @ first @ ''!'');
          explanation = json_get evaluation ''explanation'' ''Let's proceed.'';
          bot_response = feedback @ ''\<newline>\<newline>'' @ explanation
      in
      (case set_index (technical_answers s) (current_question_index s) input of
        Inl e \<Rightarrow> Raise e s
      | Inr answers \<Rightarrow>
      let s2 = s\<lparr>technical_answers := answers,
                 current_question_index := current_question_index s + 1\<rparr>
      in
      if current_question_index s2 < length (technical_questions s2) then
        (case index (technical_questions s2) (current_question_index s2) of
           Inl e \<Rightarrow> Raise e s2
         | Inr next_question \<Rightarrow>
             Reply s2
               (bot_response @
                next_question_msg first (current_question_index s2) next_question))
      else
        Reply (s2\<lparr>conversation_phase := CONCLUSION\<rparr>)
          (bot_response @ completion_msg first))))))"

text \<open>\<open>if bot_response: st.session_state.messages.append(...)\<close>\<close>

fun respond :: "branch \<Rightarrow> outcome" where
  "respond (Reply s bot_response) =
     Done (if bot_response \<noteq> []
           then s\<lparr>messages := messages s @ [\<lparr>role = ''assistant'', content = bot_response\<rparr>]\<rparr>
           else s)
       bot_response"
| "respond (Raise e s) = Raised e s"

text \<open>
  One run of the chat logic on the user's input. There is no turn in the ended phase, where
  the input box is not shown, and none on an empty input.
\<close>

definition handle_turn :: "env \<Rightarrow> session \<Rightarrow> string \<Rightarrow> outcome" where
  "handle_turn w s input =
     (if conversation_phase s = ENDED \<or> input = [] then No_Turn
      else
        let s1 = s\<lparr>messages := messages s @ [\<lparr>role = ''user'', content = input\<rparr>]\<rparr>;
            ph = conversation_phase s1;
            first = candidate_first_name (candidate_data s1)
        in respond
             (if has_exit_keyword input then
                Reply (s1\<lparr>conversation_phase := ENDED\<rparr>) (farewell first)
              else if ph = GREETING then
                Reply (s1\<lparr>conversation_phase := DATA_COLLECTION\<rparr>)
                  (get_ai_response w (messages s1) (get_system_prompt ph))
              else if ph = DATA_COLLECTION then data_collection w s1 first input
              else if ph = DATA_CONFIRMATION then data_confirmation w s1 first input
              else if ph = TECHNICAL_QUESTIONS then technical_questions_turn w s1 first input
              else if ph = CONCLUSION then
                Reply (s1\<lparr>conversation_phase := ENDED\<rparr>)
                  (get_ai_response w (messages s1) (get_system_prompt ph))
              else Reply s1 []))"

text \<open>
  A session: the turns one after the other, each with the answers the client gives during
  it. After an exception the script stops, and the next input finds the state as it was left.
\<close>

fun run :: "session \<Rightarrow> (env \<times> string) list \<Rightarrow> session" where
  "run s [] = s"
| "run s ((w, input) # rest) =
     (case handle_turn w s input of
        Done s' bot_response \<Rightarrow> run s' rest
      | Raised e s' \<Rightarrow> run s' rest
      | No_Turn \<Rightarrow> run s rest)"

section \<open>States of a session\<close>

definition FIELD_NAMES :: "string list" where
  "FIELD_NAMES = [''name'', ''email'', ''phone'', ''experience'', ''position'', ''location'',
                  ''tech_stack'']"

text \<open>
  What holds of every state that a session reaches: the seven keys in their order; in the
  data collection the fields before the current step are filled and the others are empty;
  afterwards all are filled; the stored experience has passed its check; in the technical
  phase there are five questions, five answer slots and the cursor below five.
\<close>

definition session_inv :: "session \<Rightarrow> bool" where
  "session_inv s =
     (map fst (candidate_data s) = FIELD_NAMES \<and>
      (let vs = map snd (candidate_data s)
       in (vs ! 3 = [] \<or> experience_validation (vs ! 3)) \<and>
          (case conversation_phase s of
             GREETING \<Rightarrow>
               current_step s = 1 \<and> list_all (\<lambda>v. v = []) vs \<and> current_question_index s = 0
           | DATA_COLLECTION \<Rightarrow>
               1 \<le> current_step s \<and> current_step s \<le> 7 \<and>
               list_all (\<lambda>v. v \<noteq> []) (take (current_step s - 1) vs) \<and>
               list_all (\<lambda>v. v = []) (drop (current_step s - 1) vs) \<and>
               current_question_index s = 0
           | DATA_CONFIRMATION \<Rightarrow>
               list_all (\<lambda>v. v \<noteq> []) vs \<and> current_question_index s = 0
           | TECHNICAL_QUESTIONS \<Rightarrow>
               list_all (\<lambda>v. v \<noteq> []) vs \<and> length (technical_questions s) = 5 \<and>
               length (technical_answers s) = 5 \<and> current_question_index s < 5
           | CONCLUSION \<Rightarrow> True
           | ENDED \<Rightarrow> True)))"

section \<open>The validators and the question list in the words of the specification\<close>






section \<open>Example clients and sessions\<close>

text \<open>A client whose every call raises, and one that accepts every input.\<close>

definition failing_client :: env where
  "failing_client =
     \<lparr>validation_completion = (\<lambda>user_input field_name. None),
      chat_completion = (\<lambda>msgs system_prompt. None),
      questions_completion = (\<lambda>level tech_stack. None),
      evaluation_completion = (\<lambda>question answer name level tech_stack. None),
      repr_float = (\<lambda>f. ''3.5'')\<rparr>"

definition agreeing_client :: env where
  "agreeing_client =
     \<lparr>validation_completion = (\<lambda>user_input field_name. Some ''Yes''),
      chat_completion = (\<lambda>msgs system_prompt. Some ''Welcome! What is your full name?''),
      questions_completion = (\<lambda>level tech_stack. None),
      evaluation_completion = (\<lambda>question answer name level tech_stack. None),
      repr_float = (\<lambda>f. ''3.5'')\<rparr>"

text \<open>A session in the data collection, the name stored, at the step of the email.\<close>

definition jane_session :: session where
  "jane_session =
     \<lparr>candidate_data =
        [(''name'', ''Jane Doe''), (''email'', []), (''phone'', []), (''experience'', []),
         (''position'', []), (''location'', []), (''tech_stack'', [])],
      current_step = 2, conversation_phase = DATA_COLLECTION, technical_questions = [],
      technical_answers = [], current_question_index = 0, retry_count = 0,
      messages =
        [\<lparr>role = ''user'', content = ''hello''\<rparr>,
         \<lparr>role = ''assistant'', content = ''Welcome! What is your full name?''\<rparr>,
         \<lparr>role = ''user'', content = ''Jane Doe''\<rparr>,
         \<lparr>role = ''assistant'',
          content = ''Hi there! Thanks for sharing your full name. Next, Could you please share your email address?''\<rparr>]\<rparr>"



text \<open>The session that starts, and the session after the greeting.\<close>

definition greeting_session :: session where
  "greeting_session =
     \<lparr>candidate_data =
        [(''name'', []), (''email'', []), (''phone'', []), (''experience'', []),
         (''position'', []), (''location'', []), (''tech_stack'', [])],
      current_step = 1, conversation_phase = GREETING, technical_questions = [],
      technical_answers = [], current_question_index = 0, retry_count = 0, messages = []\<rparr>"

definition name_step_session :: session where
  "name_step_session =
     \<lparr>candidate_data =
        [(''name'', []), (''email'', []), (''phone'', []), (''experience'', []),
         (''position'', []), (''location'', []), (''tech_stack'', [])],
      current_step = 1, conversation_phase = DATA_COLLECTION, technical_questions = [],
      technical_answers = [], current_question_index = 0, retry_count = 0,
      messages =
        [\<lparr>role = ''user'', content = ''hello''\<rparr>,
         \<lparr>role = ''assistant'', content = ''Welcome! What is your full name?''\<rparr>]\<rparr>"

text \<open>A session at the last step of the data collection, and one at the last question.\<close>

definition stack_step_session :: session where
  "stack_step_session =
     \<lparr>candidate_data =
        [(''name'', ''Jane Doe''), (''email'', ''jane@example.com''),
         (''phone'', ''1234567890''), (''experience'', ''3.5''),
         (''position'', ''Backend Engineer''), (''location'', ''Remote''),
         (''tech_stack'', [])],
      current_step = 7, conversation_phase = DATA_COLLECTION, technical_questions = [],
      technical_answers = [], current_question_index = 0, retry_count = 0, messages = []\<rparr>"



section \<open>Properties\<close>

subsection \<open>Strings\<close>

lemma split_on_not_Nil: "split_on sep s \<noteq> []"
  by (induction s) (auto split: list.splits)

lemma hd_split_on: "hd (split_on sep s) = takeWhile (\<lambda>c. c \<noteq> sep) s"
proof (induction s)
  case Nil
  show ?case by simp
next
  case (Cons c cs)
  then show ?case
    using split_on_not_Nil [of sep cs] by (cases "split_on sep cs") auto
qed

lemma starts_with_append: "starts_with k (k @ rest)"
  by (induction k) auto

lemma py_in_append: "py_in k (before @ k @ rest)"
proof (induction before)
  case Nil
  show ?case
    using starts_with_append [of k rest] by (cases "k @ rest") auto
next
  case (Cons c cs)
  then show ?case by simp
qed

lemma has_exit_keyword_not_Nil: "has_exit_keyword input \<Longrightarrow> input \<noteq> []"
  by (auto simp: has_exit_keyword_def EXIT_KEYWORDS_def lower_def)

subsection \<open>Session reset\<close>

lemma fresh_session_eq:
  "fresh_session =
     Some \<lparr>candidate_data =
             [(''name'', []), (''email'', []), (''phone'', []), (''experience'', []),
              (''position'', []), (''location'', []), (''tech_stack'', [])],
           current_step = 1, conversation_phase = GREETING, technical_questions = [],
           technical_answers = [], current_question_index = 0, retry_count = 0,
           messages = []\<rparr>"
  by (simp add: fresh_session_def initialize_session_state_def session_of_def)

text \<open>
  C8. Starting a new interview session in the ended phase gives the state of a session
  that starts: phase greeting, the seven fields empty, no messages, cursor 0, no questions,
  no answers, retry count 0.
\<close>

theorem reset_yields_fresh_session:
  assumes "conversation_phase s = ENDED"
  shows "start_new_interview_session s = fresh_session \<and>
         start_new_interview_session s =
           Some \<lparr>candidate_data =
                   [(''name'', []), (''email'', []), (''phone'', []), (''experience'', []),
                    (''position'', []), (''location'', []), (''tech_stack'', [])],
                 current_step = 1, conversation_phase = GREETING, technical_questions = [],
                 technical_answers = [], current_question_index = 0, retry_count = 0,
                 messages = []\<rparr>"
  using assms
  by (simp add: start_new_interview_session_def delete_all_keys_def fresh_session_def
      initialize_session_state_def session_of_def)

theorem reset_yields_fresh_session_witness:
  "start_new_interview_session
     \<lparr>candidate_data = [(''name'', ''Jane Doe'')], current_step = 2,
      conversation_phase = ENDED, technical_questions = [], technical_answers = [],
      current_question_index = 0, retry_count = 0,
      messages = [\<lparr>role = ''user'', content = ''bye''\<rparr>]\<rparr> = fresh_session"
  using reset_yields_fresh_session
    [of "\<lparr>candidate_data = [(''name'', ''Jane Doe'')], current_step = 2,
          conversation_phase = ENDED, technical_questions = [], technical_answers = [],
          current_question_index = 0, retry_count = 0,
          messages = [\<lparr>role = ''user'', content = ''bye''\<rparr>]\<rparr>"]
  by simp

subsection \<open>Exit keywords\<close>

text \<open>
  C1. In every phase but the ended one, a message that contains an exit keyword, in any
  case of its letters, ends the session: the phase becomes ended, the user's message and a
  farewell are appended, and nothing else of the state changes, whatever the client answers.
  The farewell contains the first token of the stored name, the part before its first
  space, if the name is not empty, and the word 'there' otherwise.
\<close>

theorem exit_keyword_ends_session:
  assumes "conversation_phase s \<noteq> ENDED" and "has_exit_keyword input"
  shows "handle_turn w s input =
           Done (s\<lparr>conversation_phase := ENDED,
                   messages := messages s @
                     [\<lparr>role = ''user'', content = input\<rparr>,
                      \<lparr>role = ''assistant'',
                       content = farewell (candidate_first_name (candidate_data s))\<rparr>]\<rparr>)
             (farewell (candidate_first_name (candidate_data s))) \<and>
         py_in (candidate_first_name (candidate_data s))
           (farewell (candidate_first_name (candidate_data s))) \<and>
         (\<forall>name. map_of (candidate_data s) ''name'' = Some name \<longrightarrow>
            candidate_first_name (candidate_data s) =
              (if name \<noteq> [] then takeWhile (\<lambda>c. c \<noteq> CHR '' '') name else ''there''))"
proof -
  have "input \<noteq> []"
    using assms(2) by (rule has_exit_keyword_not_Nil)
  then have "handle_turn w s input =
           Done (s\<lparr>conversation_phase := ENDED,
                   messages := messages s @
                     [\<lparr>role = ''user'', content = input\<rparr>,
                      \<lparr>role = ''assistant'',
                       content = farewell (candidate_first_name (candidate_data s))\<rparr>]\<rparr>)
             (farewell (candidate_first_name (candidate_data s)))"
    using assms by (simp add: handle_turn_def Let_def farewell_def)
  moreover have "py_in (candidate_first_name (candidate_data s))
           (farewell (candidate_first_name (candidate_data s)))"
    unfolding farewell_def by (rule py_in_append)
  moreover have "\<forall>name. map_of (candidate_data s) ''name'' = Some name \<longrightarrow>
            candidate_first_name (candidate_data s) =
              (if name \<noteq> [] then takeWhile (\<lambda>c. c \<noteq> CHR '' '') name else ''there'')"
    by (simp add: candidate_first_name_def hd_split_on)
  ultimately show ?thesis by blast
qed

theorem exit_keyword_ends_session_witness:
  "conversation_phase jane_session \<noteq> ENDED \<and> has_exit_keyword ''OK, Goodbye!'' \<and>
   handle_turn failing_client jane_session ''OK, Goodbye!'' =
     Done (jane_session\<lparr>conversation_phase := ENDED,
             messages := messages jane_session @
               [\<lparr>role = ''user'', content = ''OK, Goodbye!''\<rparr>,
                \<lparr>role = ''assistant'',
                 content = ''Thank you for your time! Best of luck, Jane! '' @ waving_hand\<rparr>]\<rparr>)
       (''Thank you for your time! Best of luck, Jane! '' @ waving_hand)"
proof -
  have ph: "conversation_phase jane_session \<noteq> ENDED"
    by (simp add: jane_session_def)
  have kw: "has_exit_keyword ''OK, Goodbye!''"
    by (simp add: has_exit_keyword_def EXIT_KEYWORDS_def lower_def lower_char_def
        ascii_uppercase_def ascii_lowercase_def)
  have nm: "candidate_first_name (candidate_data jane_session) = ''Jane''"
    by (simp add: candidate_first_name_def jane_session_def)
  show ?thesis
    using exit_keyword_ends_session [OF ph kw, of failing_client] ph kw
    by (simp add: nm farewell_def)
qed

subsection \<open>Data collection\<close>

lemma candidate_data_shape:
  assumes "map fst cd = FIELD_NAMES"
  obtains v1 v2 v3 v4 v5 v6 v7 where
    "cd = [(''name'', v1), (''email'', v2), (''phone'', v3), (''experience'', v4),
           (''position'', v5), (''location'', v6), (''tech_stack'', v7)]"
proof -
  from assms have "\<exists>v1 v2 v3 v4 v5 v6 v7.
    cd = [(''name'', v1), (''email'', v2), (''phone'', v3), (''experience'', v4),
           (''position'', v5), (''location'', v6), (''tech_stack'', v7)]"
    by (auto simp: FIELD_NAMES_def map_eq_Cons_conv)
  then show ?thesis using that by blast
qed

lemma DATA_STEPS_cases:
  assumes "map_of DATA_STEPS k = Some st"
  shows "(k = 1 \<and> field st = ''name'') \<or>
         (k = 2 \<and> field st = ''email'') \<or>
         (k = 3 \<and> field st = ''phone'') \<or>
         (k = 4 \<and> field st = ''experience'' \<and>
          validation st = (\<lambda>w x. experience_validation x)) \<or>
         (k = 5 \<and> field st = ''position'') \<or>
         (k = 6 \<and> field st = ''location'') \<or>
         (k = 7 \<and> field st = ''tech_stack'')"
  using assms by (auto simp: DATA_STEPS_def split: if_splits)

lemma length_DATA_STEPS: "length DATA_STEPS = 7"
  by (simp add: DATA_STEPS_def)

lemma retry_request_not_Nil: "retry_request first st \<noteq> []"
  by (simp add: retry_request_def)

lemma experience_validation_float:
  "experience_validation x \<Longrightarrow> \<exists>f. py_float x = Inr f"
  by (simp add: experience_validation_def py_float_def Let_def)

lemma session_inv_messages [simp]: "session_inv (s\<lparr>messages := ms\<rparr>) = session_inv s"
  by (simp add: session_inv_def split: phase.split)

lemma step_prompts:
  "step_prompt 2 \<noteq> []" "step_prompt 3 \<noteq> []" "step_prompt 4 \<noteq> []" "step_prompt 5 \<noteq> []"
  "step_prompt 6 \<noteq> []" "step_prompt 7 \<noteq> []"
  by (simp_all add: step_prompt_def DATA_STEPS_def)

lemma confirmation_request_not_Nil: "confirmation_request first cd \<noteq> []"
  by (simp add: confirmation_request_def)

lemma data_collection_valid:
  assumes inv: "session_inv s" and ph: "conversation_phase s = DATA_COLLECTION"
    and st: "map_of DATA_STEPS (current_step s) = Some st"
    and valid: "validation st w input" and ne: "input \<noteq> []"
  shows "\<exists>s' bot. data_collection w s first input = Reply s' bot \<and> bot \<noteq> [] \<and>
      candidate_data s' = AList.update (field st) input (candidate_data s) \<and>
      current_step s' = current_step s + 1 \<and>
      conversation_phase s' =
        (if current_step s = 7 then DATA_CONFIRMATION else DATA_COLLECTION) \<and>
      technical_questions s' = technical_questions s \<and>
      technical_answers s' = technical_answers s \<and>
      current_question_index s' = current_question_index s \<and>
      retry_count s' = retry_count s \<and> messages s' = messages s \<and>
      (if current_step s = 7 then bot = confirmation_request first (candidate_data s')
       else acknowledgement w (candidate_data s') (current_step s) first = Inr bot) \<and>
      session_inv s' \<and> map_of (candidate_data s) (field st) = Some []"
proof -
  from inv have keys: "map fst (candidate_data s) = FIELD_NAMES"
    by (simp add: session_inv_def)
  then obtain v1 v2 v3 v4 v5 v6 v7 where
    cd: "candidate_data s = [(''name'', v1), (''email'', v2), (''phone'', v3),
           (''experience'', v4), (''position'', v5), (''location'', v6), (''tech_stack'', v7)]"
    by (rule candidate_data_shape)
  from DATA_STEPS_cases [OF st] consider
      (1) "current_step s = 1" "field st = ''name''"
    | (2) "current_step s = 2" "field st = ''email''"
    | (3) "current_step s = 3" "field st = ''phone''"
    | (4) "current_step s = 4" "field st = ''experience''" "experience_validation input"
    | (5) "current_step s = 5" "field st = ''position''"
    | (6) "current_step s = 6" "field st = ''location''"
    | (7) "current_step s = 7" "field st = ''tech_stack''"
    using valid by auto
  then show ?thesis
  proof cases
    case 1
    then show ?thesis
      using inv ph st valid ne cd
      by (auto simp: data_collection_def Let_def acknowledgement_def lookup_def
          length_DATA_STEPS session_inv_def FIELD_NAMES_def step_prompts)
  next
    case 2
    then show ?thesis
      using inv ph st valid ne cd
      by (auto simp: data_collection_def Let_def acknowledgement_def lookup_def
          length_DATA_STEPS session_inv_def FIELD_NAMES_def step_prompts)
  next
    case 3
    then show ?thesis
      using inv ph st valid ne cd
      by (auto simp: data_collection_def Let_def acknowledgement_def lookup_def
          length_DATA_STEPS session_inv_def FIELD_NAMES_def step_prompts)
  next
    case 4
    from experience_validation_float [OF 4(3)] obtain f where "py_float input = Inr f" ..
    with 4 show ?thesis
      using inv ph st valid ne cd
      by (auto simp: data_collection_def Let_def acknowledgement_def lookup_def
          length_DATA_STEPS session_inv_def FIELD_NAMES_def step_prompts)
  next
    case 5
    then show ?thesis
      using inv ph st valid ne cd
      by (auto simp: data_collection_def Let_def acknowledgement_def lookup_def
          length_DATA_STEPS session_inv_def FIELD_NAMES_def step_prompts)
  next
    case 6
    then show ?thesis
      using inv ph st valid ne cd
      by (auto simp: data_collection_def Let_def acknowledgement_def lookup_def
          length_DATA_STEPS session_inv_def FIELD_NAMES_def step_prompts)
  next
    case 7
    then show ?thesis
      using inv ph st valid ne cd
      by (auto simp: data_collection_def Let_def acknowledgement_def lookup_def
          length_DATA_STEPS session_inv_def FIELD_NAMES_def confirmation_request_not_Nil)
  qed
qed

lemma DATA_STEPS_defined:
  assumes "1 \<le> k" and "k \<le> 7"
  shows "\<exists>st. map_of DATA_STEPS k = Some st"
proof -
  from assms have "k = 1 \<or> k = 2 \<or> k = 3 \<or> k = 4 \<or> k = 5 \<or> k = 6 \<or> k = 7"
    by arith
  then show ?thesis
    by (auto simp: DATA_STEPS_def)
qed

lemma length_fallback_questions: "length fallback_questions = 5"
  by (simp add: fallback_questions_def)

lemma length_generate_technical_questions:
  "length (generate_technical_questions w tech_stack experience) = 5"
  by (simp add: generate_technical_questions_def length_fallback_questions
      split: sum.split option.split)

lemma first_question_msg_not_Nil: "first_question_msg first t p q \<noteq> []"
  by (simp add: first_question_msg_def)

lemma data_confirmation_inv:
  assumes inv: "session_inv s" and ph: "conversation_phase s = DATA_CONFIRMATION"
  shows "\<exists>s' bot. data_confirmation w s first input = Reply s' bot \<and> bot \<noteq> [] \<and>
      candidate_data s' = candidate_data s \<and> current_step s' = current_step s \<and>
      conversation_phase s' =
        (if is_affirmative input then TECHNICAL_QUESTIONS else DATA_CONFIRMATION) \<and>
      current_question_index s' = current_question_index s \<and>
      retry_count s' = retry_count s \<and> messages s' = messages s \<and>
      session_inv s'"
proof -
  from inv have keys: "map fst (candidate_data s) = FIELD_NAMES"
    by (simp add: session_inv_def)
  then obtain v1 v2 v3 v4 v5 v6 v7 where
    cd: "candidate_data s = [(''name'', v1), (''email'', v2), (''phone'', v3),
           (''experience'', v4), (''position'', v5), (''location'', v6), (''tech_stack'', v7)]"
    by (rule candidate_data_shape)
  show ?thesis
  proof (cases "is_affirmative input")
    case True
    have "generate_technical_questions w v7 v4 \<noteq> []"
      using length_generate_technical_questions [of w v7 v4] by auto
    with True show ?thesis
      using inv ph cd
      by (auto simp: data_confirmation_def Let_def lookup_def index_def session_inv_def
          FIELD_NAMES_def length_generate_technical_questions first_question_msg_not_Nil)
  next
    case False
    then show ?thesis
      using inv ph by (simp add: data_confirmation_def)
  qed
qed

lemma technical_questions_turn_inv:
  assumes inv: "session_inv s" and ph: "conversation_phase s = TECHNICAL_QUESTIONS"
  shows "\<exists>s' bot feedback. technical_questions_turn w s first input = Reply s' bot \<and>
      bot \<noteq> [] \<and>
      candidate_data s' = candidate_data s \<and> current_step s' = current_step s \<and>
      technical_questions s' = technical_questions s \<and>
      current_question_index s < length (technical_answers s) \<and>
      technical_answers s' = (technical_answers s)[current_question_index s := input] \<and>
      current_question_index s' = current_question_index s + 1 \<and>
      conversation_phase s' =
        (if current_question_index s + 1 < 5 then TECHNICAL_QUESTIONS else CONCLUSION) \<and>
      bot = feedback @
        (if current_question_index s + 1 < 5
         then next_question_msg first (current_question_index s + 1)
                (technical_questions s ! (current_question_index s + 1))
         else completion_msg first) \<and>
      retry_count s' = retry_count s \<and> messages s' = messages s \<and>
      session_inv s'"
proof -
  from inv have keys: "map fst (candidate_data s) = FIELD_NAMES"
    by (simp add: session_inv_def)
  then obtain v1 v2 v3 v4 v5 v6 v7 where
    cd: "candidate_data s = [(''name'', v1), (''email'', v2), (''phone'', v3),
           (''experience'', v4), (''position'', v5), (''location'', v6), (''tech_stack'', v7)]"
    by (rule candidate_data_shape)
  from inv ph cd have "experience_validation v4"
    by (auto simp: session_inv_def)
  then obtain f where f: "py_float v4 = Inr f"
    using experience_validation_float by blast
  from inv ph have len: "length (technical_questions s) = 5" "length (technical_answers s) = 5"
    "current_question_index s < 5"
    by (auto simp: session_inv_def Let_def)
  show ?thesis
  proof (cases "current_question_index s + 1 < 5")
    case True
    then show ?thesis
      using inv ph cd f len
      by (auto simp: technical_questions_turn_def Let_def lookup_def index_def set_index_def
          session_inv_def FIELD_NAMES_def)
  next
    case False
    then show ?thesis
      using inv ph cd f len
      by (auto simp: technical_questions_turn_def Let_def lookup_def index_def set_index_def
          session_inv_def FIELD_NAMES_def)
  qed
qed

lemma farewell_not_Nil: "farewell first \<noteq> []"
  by (simp add: farewell_def)

lemma handle_turn_exit:
  assumes "conversation_phase s \<noteq> ENDED" and "input \<noteq> []" and "has_exit_keyword input"
  shows "handle_turn w s input =
           Done (s\<lparr>conversation_phase := ENDED,
                   messages := messages s @
                     [\<lparr>role = ''user'', content = input\<rparr>,
                      \<lparr>role = ''assistant'',
                       content = farewell (candidate_first_name (candidate_data s))\<rparr>]\<rparr>)
             (farewell (candidate_first_name (candidate_data s)))"
  using assms by (simp add: handle_turn_def Let_def farewell_not_Nil)

lemma handle_turn_reply:
  assumes "conversation_phase s = GREETING \<or> conversation_phase s = CONCLUSION"
    and "input \<noteq> []" and "\<not> has_exit_keyword input"
  shows "handle_turn w s input =
           respond (Reply
             (s\<lparr>messages := messages s @ [\<lparr>role = ''user'', content = input\<rparr>],
                conversation_phase :=
                  (if conversation_phase s = GREETING then DATA_COLLECTION else ENDED)\<rparr>)
             (get_ai_response w (messages s @ [\<lparr>role = ''user'', content = input\<rparr>])
                (get_system_prompt (conversation_phase s))))"
  using assms by (auto simp: handle_turn_def Let_def)

lemma handle_turn_data_collection:
  assumes "conversation_phase s = DATA_COLLECTION" and "input \<noteq> []"
    and "\<not> has_exit_keyword input"
  shows "handle_turn w s input =
           respond (data_collection w
             (s\<lparr>messages := messages s @ [\<lparr>role = ''user'', content = input\<rparr>]\<rparr>)
             (candidate_first_name (candidate_data s)) input)"
  using assms by (simp add: handle_turn_def Let_def)

lemma handle_turn_data_confirmation:
  assumes "conversation_phase s = DATA_CONFIRMATION" and "input \<noteq> []"
    and "\<not> has_exit_keyword input"
  shows "handle_turn w s input =
           respond (data_confirmation w
             (s\<lparr>messages := messages s @ [\<lparr>role = ''user'', content = input\<rparr>]\<rparr>)
             (candidate_first_name (candidate_data s)) input)"
  using assms by (simp add: handle_turn_def Let_def)

lemma handle_turn_technical_questions:
  assumes "conversation_phase s = TECHNICAL_QUESTIONS" and "input \<noteq> []"
    and "\<not> has_exit_keyword input"
  shows "handle_turn w s input =
           respond (technical_questions_turn w
             (s\<lparr>messages := messages s @ [\<lparr>role = ''user'', content = input\<rparr>]\<rparr>)
             (candidate_first_name (candidate_data s)) input)"
  using assms by (simp add: handle_turn_def Let_def)

lemma session_inv_ended:
  "session_inv s \<Longrightarrow> session_inv (s\<lparr>conversation_phase := ENDED\<rparr>)"
  by (simp add: session_inv_def Let_def)

lemma session_inv_greeting:
  "session_inv s \<Longrightarrow> conversation_phase s = GREETING \<Longrightarrow>
   session_inv (s\<lparr>conversation_phase := DATA_COLLECTION\<rparr>)"
  by (simp add: session_inv_def Let_def)

lemma map_of_update_other:
  assumes "map_of cd key = Some []" and "map_of cd k = Some v" and "v \<noteq> []"
  shows "map_of (AList.update key input cd) k = Some v"
  using assms by (auto simp: update_conv')

text \<open>
  A turn in a state of a session: it ends without exception, the state reached is again a
  state of a session, the messages grow at the end, and no filled field changes.
\<close>

lemma handle_turn_inv:
  assumes inv: "session_inv s" and ph: "conversation_phase s \<noteq> ENDED" and ne: "input \<noteq> []"
  shows "\<exists>s' bot. handle_turn w s input = Done s' bot \<and> session_inv s' \<and>
      messages s' = messages s @ [\<lparr>role = ''user'', content = input\<rparr>] @
        (if bot = [] then [] else [\<lparr>role = ''assistant'', content = bot\<rparr>]) \<and>
      (\<forall>k v. map_of (candidate_data s) k = Some v \<and> v \<noteq> [] \<longrightarrow>
             map_of (candidate_data s') k = Some v) \<and>
      conversation_phase s' =
        (if has_exit_keyword input then ENDED
         else if conversation_phase s = GREETING then DATA_COLLECTION
         else if conversation_phase s = DATA_COLLECTION then
           (if current_step s = 7 \<and>
               (\<exists>st. map_of DATA_STEPS 7 = Some st \<and> validation st w input)
            then DATA_CONFIRMATION else DATA_COLLECTION)
         else if conversation_phase s = DATA_CONFIRMATION then
           (if is_affirmative input then TECHNICAL_QUESTIONS else DATA_CONFIRMATION)
         else if conversation_phase s = TECHNICAL_QUESTIONS then
           (if current_question_index s + 1 < 5 then TECHNICAL_QUESTIONS else CONCLUSION)
         else ENDED)"
proof (cases "has_exit_keyword input")
  case True
  show ?thesis
    using handle_turn_exit [OF ph ne True, of w] inv True
    by (simp add: farewell_not_Nil session_inv_ended)
next
  case noexit: False
  let ?s1 = "s\<lparr>messages := messages s @ [\<lparr>role = ''user'', content = input\<rparr>]\<rparr>"
  let ?first = "candidate_first_name (candidate_data s)"
  have inv1: "session_inv ?s1"
    using inv by simp
  consider (greeting) "conversation_phase s = GREETING"
    | (collection) "conversation_phase s = DATA_COLLECTION"
    | (confirmation) "conversation_phase s = DATA_CONFIRMATION"
    | (technical) "conversation_phase s = TECHNICAL_QUESTIONS"
    | (conclusion) "conversation_phase s = CONCLUSION"
    using ph by (cases "conversation_phase s") auto
  then show ?thesis
  proof cases
    case greeting
    then show ?thesis
      using handle_turn_reply [of s input w] ne noexit inv1
      by (auto simp: session_inv_def Let_def)
  next
    case conclusion
    then show ?thesis
      using handle_turn_reply [of s input w] ne noexit inv1
      by (auto simp: session_inv_def Let_def)
  next
    case collection
    from inv collection have "1 \<le> current_step s" "current_step s \<le> 7"
      by (auto simp: session_inv_def Let_def)
    then obtain st where st: "map_of DATA_STEPS (current_step s) = Some st"
      using DATA_STEPS_defined by blast
    show ?thesis
    proof (cases "validation st w input")
      case True
      from data_collection_valid [of ?s1 st w input ?first] inv1 collection st True ne
      obtain s' bot where r: "data_collection w ?s1 ?first input = Reply s' bot" "bot \<noteq> []"
        "candidate_data s' = AList.update (field st) input (candidate_data s)"
        "messages s' = messages ?s1" "session_inv s'"
        "map_of (candidate_data s) (field st) = Some []"
        "conversation_phase s' =
           (if current_step s = 7 then DATA_CONFIRMATION else DATA_COLLECTION)"
        by auto
      then show ?thesis
        using handle_turn_data_collection [OF collection ne noexit, of w] collection st True noexit
        by (auto simp: map_of_update_other)
    next
      case invalid: False
      then show ?thesis
        using handle_turn_data_collection [OF collection ne noexit, of w] st inv collection
          noexit invalid
        by (auto simp: data_collection_def retry_request_not_Nil)
    qed
  next
    case confirmation
    from data_confirmation_inv [of ?s1 w ?first input] inv1 confirmation
    obtain s' bot where "data_confirmation w ?s1 ?first input = Reply s' bot" "bot \<noteq> []"
      "candidate_data s' = candidate_data s" "messages s' = messages ?s1" "session_inv s'"
      "conversation_phase s' =
         (if is_affirmative input then TECHNICAL_QUESTIONS else DATA_CONFIRMATION)"
      by auto
    then show ?thesis
      using handle_turn_data_confirmation [OF confirmation ne noexit, of w] confirmation noexit
      by auto
  next
    case technical
    from technical_questions_turn_inv [of ?s1 w ?first input] inv1 technical
    obtain s' bot where "technical_questions_turn w ?s1 ?first input = Reply s' bot" "bot \<noteq> []"
      "candidate_data s' = candidate_data s" "messages s' = messages ?s1" "session_inv s'"
      "conversation_phase s' =
         (if current_question_index s + 1 < 5 then TECHNICAL_QUESTIONS else CONCLUSION)"
      by auto
    then show ?thesis
      using handle_turn_technical_questions [OF technical ne noexit, of w] technical noexit
      by auto
  qed
qed

lemma run_inv: "session_inv s \<Longrightarrow> session_inv (run s turns)"
proof (induction turns arbitrary: s)
  case Nil
  then show ?case by simp
next
  case (Cons turn turns)
  obtain w input where turn: "turn = (w, input)"
    by (cases turn)
  show ?case
  proof (cases "conversation_phase s \<noteq> ENDED \<and> input \<noteq> []")
    case True
    then obtain s' bot where "handle_turn w s input = Done s' bot" "session_inv s'"
      using handle_turn_inv [of s input w] Cons.prems by blast
    then show ?thesis
      using Cons.IH [of s'] turn by simp
  next
    case False
    then have "handle_turn w s input = No_Turn"
      by (auto simp: handle_turn_def)
    then show ?thesis
      using Cons.IH [of s] Cons.prems turn by simp
  qed
qed

lemma fresh_session_inv: "fresh_session = Some s \<Longrightarrow> session_inv s"
  by (auto simp: fresh_session_eq session_inv_def FIELD_NAMES_def)

text \<open>Every state that a session reaches from its start is a state of a session.\<close>

lemma reachable_session_inv: "fresh_session = Some s0 \<Longrightarrow> session_inv (run s0 turns)"
  by (rule run_inv) (rule fresh_session_inv)






subsection \<open>The example sessions\<close>

lemmas char_class_defs =
  is_alpha_def is_upper_def is_lower_def is_digit_def is_space_def lower_char_def
  upper_char_def ascii_uppercase_def ascii_lowercase_def

lemmas exit_keyword_defs = has_exit_keyword_def EXIT_KEYWORDS_def lower_def char_class_defs

lemma strip_3_5: "strip ''3.5'' = ''3.5''"
  by (simp add: strip_def is_space_def)

lemma decimal_3_5: "full_match decimal_re ''3.5''"
  by code_simp

lemma floor_log2_3_5: "floor_log2 35 10 = 1"
  by (simp add: floor_log2_def compute_floorlog)

lemma round_3_5: "round_half_even (35 * 2 ^ 51) 10 = 7881299347898368"
  by (simp add: round_half_even_def Let_def)

lemma binary64_3_5: "binary64 35 10 = Finite (7 / 2)"
  unfolding binary64_def floor_log2_3_5 using round_3_5 by (simp add: Let_def)

lemma py_float_3_5: "py_float ''3.5'' = Inr (Finite (7 / 2))"
proof -
  have "decimal_num ''3.5'' = 35"
    by (simp add: decimal_num_def nat_of_digits_def digit_val_def)
  moreover have "decimal_den ''3.5'' = 10"
    by (simp add: decimal_den_def)
  ultimately show ?thesis
    unfolding py_float_def strip_3_5 Let_def using decimal_3_5 binary64_3_5 by simp
qed

lemma experience_validation_3_5: "experience_validation ''3.5''"
  unfolding experience_validation_def strip_3_5 using decimal_3_5 py_float_3_5 by simp


lemma session_inv_stack_step: "session_inv stack_step_session"
  using experience_validation_3_5
  by (simp add: session_inv_def stack_step_session_def FIELD_NAMES_def)


lemma session_inv_name_step: "session_inv name_step_session"
  by (simp add: session_inv_def name_step_session_def FIELD_NAMES_def)

lemma email_step: "map_of DATA_STEPS 2 =
    Some \<lparr>field = ''email'', prompt = ''Could you please share your email address?'',
          validation = (\<lambda>w x. email_validation x),
          error_msg = ''Please provide a valid email address.''\<rparr>"
  by (simp add: DATA_STEPS_def)

lemma not_an_email: "\<not> email_validation ''not-an-email''"
  by code_simp


lemma jane_doe_name: "name_validation ''Jane Doe''"
  by code_simp

lemma no_exit_1: "\<not> has_exit_keyword ''not-an-email''"
  by (simp add: exit_keyword_defs)


lemma no_exit_3: "\<not> has_exit_keyword ''Jane Doe''"
  by (simp add: exit_keyword_defs)

lemma no_exit_4: "\<not> has_exit_keyword ''Python, Django''"
  by (simp add: exit_keyword_defs)


lemma no_exit_6: "\<not> has_exit_keyword ''hello''"
  by (simp add: exit_keyword_defs)

lemma summary_lines:
  "summary_line (''name'', v) = ''- **Name:** '' @ v"
  "summary_line (''email'', v) = ''- **Email:** '' @ v"
  "summary_line (''phone'', v) = ''- **Phone:** '' @ v"
  "summary_line (''experience'', v) = ''- **Experience:** '' @ v"
  "summary_line (''position'', v) = ''- **Position:** '' @ v"
  "summary_line (''location'', v) = ''- **Location:** '' @ v"
  "summary_line (''tech_stack'', v) = ''- **Tech Stack:** '' @ v"
  by (simp_all add: summary_line_def title_def replace_def char_class_defs)

subsection \<open>Steps of the data collection\<close>

text \<open>
  C3. In the data collection, a message without exit keyword that fails the validator of
  the current step leaves the step index, the candidate data and the phase as they are:
  only the user's message and the bot's request to try again are appended, and that
  request contains the step's error message.
\<close>

theorem invalid_input_keeps_step:
  assumes "conversation_phase s = DATA_COLLECTION" and "\<not> has_exit_keyword input"
    and "input \<noteq> []" and "map_of DATA_STEPS (current_step s) = Some st"
    and "\<not> validation st w input"
  shows "handle_turn w s input =
           Done (s\<lparr>messages := messages s @
                     [\<lparr>role = ''user'', content = input\<rparr>,
                      \<lparr>role = ''assistant'',
                       content = retry_request (candidate_first_name (candidate_data s)) st\<rparr>]\<rparr>)
             (retry_request (candidate_first_name (candidate_data s)) st) \<and>
         py_in (error_msg st) (retry_request (candidate_first_name (candidate_data s)) st)"
proof -
  have "py_in (error_msg st) (retry_request (candidate_first_name (candidate_data s)) st)"
    using py_in_append [of "error_msg st"
        "''I need a bit more clarity, '' @ candidate_first_name (candidate_data s) @ ''. ''"
        "'' Could you please try again? '' @ smiling_face"]
    by (simp add: retry_request_def)
  then show ?thesis
    using assms by (simp add: handle_turn_def data_collection_def Let_def retry_request_not_Nil)
qed

theorem invalid_input_keeps_step_witness:
  "handle_turn failing_client jane_session ''not-an-email'' =
     Done (jane_session\<lparr>messages := messages jane_session @
             [\<lparr>role = ''user'', content = ''not-an-email''\<rparr>,
              \<lparr>role = ''assistant'',
               content = ''I need a bit more clarity, Jane. Please provide a valid email address. Could you please try again? '' @ smiling_face\<rparr>]\<rparr>)
       (''I need a bit more clarity, Jane. Please provide a valid email address. Could you please try again? '' @ smiling_face) \<and>
   py_in ''Please provide a valid email address.''
     (''I need a bit more clarity, Jane. Please provide a valid email address. Could you please try again? '' @ smiling_face)"
proof -
  have ph: "conversation_phase jane_session = DATA_COLLECTION"
    by (simp add: jane_session_def)
  have st: "map_of DATA_STEPS (current_step jane_session) =
      Some \<lparr>field = ''email'', prompt = ''Could you please share your email address?'',
            validation = (\<lambda>w x. email_validation x),
            error_msg = ''Please provide a valid email address.''\<rparr>"
    using email_step by (simp add: jane_session_def)
  have bad: "\<not> validation \<lparr>field = ''email'',
      prompt = ''Could you please share your email address?'',
      validation = (\<lambda>w x. email_validation x),
      error_msg = ''Please provide a valid email address.''\<rparr> failing_client ''not-an-email''"
    using not_an_email by simp
  have nm: "candidate_first_name (candidate_data jane_session) = ''Jane''"
    by (simp add: candidate_first_name_def jane_session_def)
  show ?thesis
    using invalid_input_keeps_step [OF ph no_exit_1 _ st bad]
    by (simp add: nm retry_request_def)
qed



subsection \<open>The summary\<close>

lemma data_summary_filled:
  assumes "v1 \<noteq> []" "v2 \<noteq> []" "v3 \<noteq> []" "v4 \<noteq> []" "v5 \<noteq> []" "v6 \<noteq> []" "v7 \<noteq> []"
  shows "data_summary
           [(''name'', v1), (''email'', v2), (''phone'', v3), (''experience'', v4),
            (''position'', v5), (''location'', v6), (''tech_stack'', v7)] =
         ''- **Name:** '' @ v1 @ ''\<newline>- **Email:** '' @ v2 @ ''\<newline>- **Phone:** '' @ v3 @
         ''\<newline>- **Experience:** '' @ v4 @ ''\<newline>- **Position:** '' @ v5 @
         ''\<newline>- **Location:** '' @ v6 @ ''\<newline>- **Tech Stack:** '' @ v7"
  using assms by (simp add: data_summary_def summary_lines)

text \<open>
  C4. In a state of a session, the turn that passes the validator of step 7 in the data
  collection moves the phase to the data confirmation, and the bot's response is the
  request for confirmation around the summary, which lists the seven stored values, each
  not empty, in the order name, email, phone, experience, position, location, tech stack.
  No other turn moves the phase to the data confirmation.
\<close>

theorem confirmation_entered_after_step_7:
  assumes inv: "session_inv s" and ph: "conversation_phase s \<noteq> ENDED" and ne: "input \<noteq> []"
  shows "(conversation_phase s = DATA_COLLECTION \<and> current_step s = 7 \<and>
          \<not> has_exit_keyword input \<and>
          (\<exists>st. map_of DATA_STEPS 7 = Some st \<and> validation st w input) \<longrightarrow>
          (\<exists>s' v1 v2 v3 v4 v5 v6.
             handle_turn w s input =
               Done s'
                 (''Alright, '' @ candidate_first_name (candidate_data s) @
                  ''! We've gathered all your information. Does this look correct?\<newline>\<newline>'' @
                  ''- **Name:** '' @ v1 @ ''\<newline>- **Email:** '' @ v2 @
                  ''\<newline>- **Phone:** '' @ v3 @ ''\<newline>- **Experience:** '' @ v4 @
                  ''\<newline>- **Position:** '' @ v5 @ ''\<newline>- **Location:** '' @ v6 @
                  ''\<newline>- **Tech Stack:** '' @ input @
                  ''\<newline>\<newline>Please type 'yes' to confirm or tell me what to change.'') \<and>
             conversation_phase s' = DATA_CONFIRMATION \<and>
             candidate_data s' =
               [(''name'', v1), (''email'', v2), (''phone'', v3), (''experience'', v4),
                (''position'', v5), (''location'', v6), (''tech_stack'', input)] \<and>
             v1 \<noteq> [] \<and> v2 \<noteq> [] \<and> v3 \<noteq> [] \<and> v4 \<noteq> [] \<and> v5 \<noteq> [] \<and> v6 \<noteq> [])) \<and>
         (\<forall>s' reply. handle_turn w s input = Done s' reply \<and>
            conversation_phase s' = DATA_CONFIRMATION \<and>
            conversation_phase s \<noteq> DATA_CONFIRMATION \<longrightarrow>
            conversation_phase s = DATA_COLLECTION \<and> current_step s = 7 \<and>
            \<not> has_exit_keyword input \<and>
            (\<exists>st. map_of DATA_STEPS 7 = Some st \<and> validation st w input))"
proof -
  have only: "\<forall>s' reply. handle_turn w s input = Done s' reply \<and>
            conversation_phase s' = DATA_CONFIRMATION \<and>
            conversation_phase s \<noteq> DATA_CONFIRMATION \<longrightarrow>
            conversation_phase s = DATA_COLLECTION \<and> current_step s = 7 \<and>
            \<not> has_exit_keyword input \<and>
            (\<exists>st. map_of DATA_STEPS 7 = Some st \<and> validation st w input)"
  proof (intro allI impI)
    fix s' reply
    assume a: "handle_turn w s input = Done s' reply \<and>
              conversation_phase s' = DATA_CONFIRMATION \<and>
              conversation_phase s \<noteq> DATA_CONFIRMATION"
    from handle_turn_inv [OF inv ph ne, of w] a
    have "DATA_CONFIRMATION =
          (if has_exit_keyword input then ENDED
           else if conversation_phase s = GREETING then DATA_COLLECTION
           else if conversation_phase s = DATA_COLLECTION then
             (if current_step s = 7 \<and>
                 (\<exists>st. map_of DATA_STEPS 7 = Some st \<and> validation st w input)
              then DATA_CONFIRMATION else DATA_COLLECTION)
           else if conversation_phase s = DATA_CONFIRMATION then
             (if is_affirmative input then TECHNICAL_QUESTIONS else DATA_CONFIRMATION)
           else if conversation_phase s = TECHNICAL_QUESTIONS then
             (if current_question_index s + 1 < 5 then TECHNICAL_QUESTIONS else CONCLUSION)
           else ENDED)"
      by auto
    with a show "conversation_phase s = DATA_COLLECTION \<and> current_step s = 7 \<and>
              \<not> has_exit_keyword input \<and>
              (\<exists>st. map_of DATA_STEPS 7 = Some st \<and> validation st w input)"
      by (auto split: if_splits)
  qed
  have at7: "conversation_phase s = DATA_COLLECTION \<and> current_step s = 7 \<and>
          \<not> has_exit_keyword input \<and>
          (\<exists>st. map_of DATA_STEPS 7 = Some st \<and> validation st w input) \<longrightarrow>
          (\<exists>s' v1 v2 v3 v4 v5 v6.
             handle_turn w s input =
               Done s'
                 (''Alright, '' @ candidate_first_name (candidate_data s) @
                  ''! We've gathered all your information. Does this look correct?\<newline>\<newline>'' @
                  ''- **Name:** '' @ v1 @ ''\<newline>- **Email:** '' @ v2 @
                  ''\<newline>- **Phone:** '' @ v3 @ ''\<newline>- **Experience:** '' @ v4 @
                  ''\<newline>- **Position:** '' @ v5 @ ''\<newline>- **Location:** '' @ v6 @
                  ''\<newline>- **Tech Stack:** '' @ input @
                  ''\<newline>\<newline>Please type 'yes' to confirm or tell me what to change.'') \<and>
             conversation_phase s' = DATA_CONFIRMATION \<and>
             candidate_data s' =
               [(''name'', v1), (''email'', v2), (''phone'', v3), (''experience'', v4),
                (''position'', v5), (''location'', v6), (''tech_stack'', input)] \<and>
             v1 \<noteq> [] \<and> v2 \<noteq> [] \<and> v3 \<noteq> [] \<and> v4 \<noteq> [] \<and> v5 \<noteq> [] \<and> v6 \<noteq> [])"
  proof (intro impI)
    assume a: "conversation_phase s = DATA_COLLECTION \<and> current_step s = 7 \<and>
            \<not> has_exit_keyword input \<and>
            (\<exists>st. map_of DATA_STEPS 7 = Some st \<and> validation st w input)"
    then obtain st where st: "map_of DATA_STEPS (current_step s) = Some st"
      and valid: "validation st w input" and step: "current_step s = 7"
      and dc: "conversation_phase s = DATA_COLLECTION" and noexit: "\<not> has_exit_keyword input"
      by auto
    let ?s1 = "s\<lparr>messages := messages s @ [\<lparr>role = ''user'', content = input\<rparr>]\<rparr>"
    let ?first = "candidate_first_name (candidate_data s)"
    have inv1: "session_inv ?s1"
      using inv by simp
    from inv have keys: "map fst (candidate_data s) = FIELD_NAMES"
      by (simp add: session_inv_def)
    then obtain v1 v2 v3 v4 v5 v6 v7 where
      cd: "candidate_data s = [(''name'', v1), (''email'', v2), (''phone'', v3),
             (''experience'', v4), (''position'', v5), (''location'', v6), (''tech_stack'', v7)]"
      by (rule candidate_data_shape)
    from inv dc step cd have filled: "v1 \<noteq> []" "v2 \<noteq> []" "v3 \<noteq> []" "v4 \<noteq> []" "v5 \<noteq> []"
      "v6 \<noteq> []"
      by (auto simp: session_inv_def)
    from DATA_STEPS_cases [OF st] step have fld: "field st = ''tech_stack''"
      by auto
    from data_collection_valid [of ?s1 st w input ?first] inv1 dc st valid ne step
    obtain s' reply where r: "data_collection w ?s1 ?first input = Reply s' reply" "reply \<noteq> []"
      "candidate_data s' = AList.update (field st) input (candidate_data s)"
      "conversation_phase s' = DATA_CONFIRMATION"
      "reply = confirmation_request ?first (candidate_data s')"
      by auto
    from r(3) cd fld have cd': "candidate_data s' =
        [(''name'', v1), (''email'', v2), (''phone'', v3), (''experience'', v4),
         (''position'', v5), (''location'', v6), (''tech_stack'', input)]"
      by simp
    have reply: "reply =
        ''Alright, '' @ ?first @
        ''! We've gathered all your information. Does this look correct?\<newline>\<newline>'' @
        ''- **Name:** '' @ v1 @ ''\<newline>- **Email:** '' @ v2 @
        ''\<newline>- **Phone:** '' @ v3 @ ''\<newline>- **Experience:** '' @ v4 @
        ''\<newline>- **Position:** '' @ v5 @ ''\<newline>- **Location:** '' @ v6 @
        ''\<newline>- **Tech Stack:** '' @ input @
        ''\<newline>\<newline>Please type 'yes' to confirm or tell me what to change.''"
      unfolding r(5) cd' confirmation_request_def
      using data_summary_filled [OF filled ne] by simp
    let ?s2 = "s'\<lparr>messages := messages s' @ [\<lparr>role = ''assistant'', content = reply\<rparr>]\<rparr>"
    have "handle_turn w s input = Done ?s2 reply"
      using handle_turn_data_collection [OF dc ne noexit, of w] r(1,2) by simp
    moreover have "conversation_phase ?s2 = DATA_CONFIRMATION"
      using r(4) by simp
    moreover have "candidate_data ?s2 =
        [(''name'', v1), (''email'', v2), (''phone'', v3), (''experience'', v4),
         (''position'', v5), (''location'', v6), (''tech_stack'', input)]"
      using cd' by simp
    ultimately show "\<exists>s' v1 v2 v3 v4 v5 v6.
               handle_turn w s input =
                 Done s'
                   (''Alright, '' @ candidate_first_name (candidate_data s) @
                    ''! We've gathered all your information. Does this look correct?\<newline>\<newline>'' @
                    ''- **Name:** '' @ v1 @ ''\<newline>- **Email:** '' @ v2 @
                    ''\<newline>- **Phone:** '' @ v3 @ ''\<newline>- **Experience:** '' @ v4 @
                    ''\<newline>- **Position:** '' @ v5 @ ''\<newline>- **Location:** '' @ v6 @
                    ''\<newline>- **Tech Stack:** '' @ input @
                    ''\<newline>\<newline>Please type 'yes' to confirm or tell me what to change.'') \<and>
               conversation_phase s' = DATA_CONFIRMATION \<and>
               candidate_data s' =
                 [(''name'', v1), (''email'', v2), (''phone'', v3), (''experience'', v4),
                  (''position'', v5), (''location'', v6), (''tech_stack'', input)] \<and>
               v1 \<noteq> [] \<and> v2 \<noteq> [] \<and> v3 \<noteq> [] \<and> v4 \<noteq> [] \<and> v5 \<noteq> [] \<and> v6 \<noteq> []"
      using filled reply by blast
  qed
  show ?thesis
    using only at7 by blast
qed

lemma stack_step: "map_of DATA_STEPS 7 =
    Some \<lparr>field = ''tech_stack'',
          prompt =
            ''What programming languages, frameworks, and technologies are you proficient in?'',
          validation = (\<lambda>w x. validate_text_input_with_ai w x ''Technology Stack''),
          error_msg = ''Please list the technical skills you are proficient in.''\<rparr>"
  by (simp add: DATA_STEPS_def)

lemma agreeing_client_validates:
  "validate_text_input_with_ai agreeing_client ''Python, Django'' ''Technology Stack''"
  by (simp add: validate_text_input_with_ai_def agreeing_client_def strip_def lower_def
      char_class_defs)

theorem confirmation_entered_after_step_7_witness:
  "\<exists>s'. handle_turn agreeing_client stack_step_session ''Python, Django'' =
     Done s'
       (''Alright, Jane! We've gathered all your information. Does this look correct?\<newline>\<newline>'' @
        ''- **Name:** Jane Doe\<newline>- **Email:** jane@example.com\<newline>- **Phone:** 1234567890\<newline>- **Experience:** 3.5\<newline>- **Position:** Backend Engineer\<newline>- **Location:** Remote\<newline>- **Tech Stack:** Python, Django'' @
        ''\<newline>\<newline>Please type 'yes' to confirm or tell me what to change.'') \<and>
     conversation_phase s' = DATA_CONFIRMATION"
proof -
  have ph: "conversation_phase stack_step_session \<noteq> ENDED"
    by (simp add: stack_step_session_def)
  have ne: "''Python, Django'' \<noteq> []"
    by simp
  have hyp: "conversation_phase stack_step_session = DATA_COLLECTION \<and>
      current_step stack_step_session = 7 \<and> \<not> has_exit_keyword ''Python, Django'' \<and>
      (\<exists>st. map_of DATA_STEPS 7 = Some st \<and> validation st agreeing_client ''Python, Django'')"
    using no_exit_4 agreeing_client_validates
    by (simp add: stack_step_session_def stack_step)
  have nm: "candidate_first_name (candidate_data stack_step_session) = ''Jane''"
    by (simp add: candidate_first_name_def stack_step_session_def)
  from confirmation_entered_after_step_7 [OF session_inv_stack_step ph ne, of agreeing_client] hyp
  obtain s' v1 v2 v3 v4 v5 v6 where
    r: "handle_turn agreeing_client stack_step_session ''Python, Django'' =
               Done s'
                 (''Alright, '' @ candidate_first_name (candidate_data stack_step_session) @
                  ''! We've gathered all your information. Does this look correct?\<newline>\<newline>'' @
                  ''- **Name:** '' @ v1 @ ''\<newline>- **Email:** '' @ v2 @
                  ''\<newline>- **Phone:** '' @ v3 @ ''\<newline>- **Experience:** '' @ v4 @
                  ''\<newline>- **Position:** '' @ v5 @ ''\<newline>- **Location:** '' @ v6 @
                  ''\<newline>- **Tech Stack:** '' @ ''Python, Django'' @
                  ''\<newline>\<newline>Please type 'yes' to confirm or tell me what to change.'')"
      "conversation_phase s' = DATA_CONFIRMATION"
      "candidate_data s' =
               [(''name'', v1), (''email'', v2), (''phone'', v3), (''experience'', v4),
                (''position'', v5), (''location'', v6), (''tech_stack'', ''Python, Django'')]"
    by blast
  have "candidate_data s' = AList.update ''tech_stack'' ''Python, Django''
      (candidate_data stack_step_session)"
    using r(1) hyp ne
    by (auto simp: handle_turn_def Let_def data_collection_def stack_step
        length_DATA_STEPS acknowledgement_def confirmation_request_not_Nil
        stack_step_session_def)
  with r(3) have "v1 = ''Jane Doe'' \<and> v2 = ''jane@example.com'' \<and> v3 = ''1234567890'' \<and>
      v4 = ''3.5'' \<and> v5 = ''Backend Engineer'' \<and> v6 = ''Remote''"
    by (simp add: stack_step_session_def)
  with r(1,2) nm show ?thesis
    by simp
qed


subsection \<open>The technical phase, the history and the first acknowledgement\<close>




lemma fresh_session_greeting: "fresh_session = Some greeting_session"
  by (simp add: fresh_session_eq greeting_session_def)



text \<open>The acknowledgements of the steps 2 to 6 contain the first name they are given.\<close>

lemma later_acknowledgements_personalized:
  assumes "acknowledgement w cd k first = Inr b" and "2 \<le> k" and "k \<le> 6"
  shows "py_in first b"
proof -
  from assms(2,3) consider "k = 2" | "k = 3" | "k = 4" | "k = 5" | "k = 6"
    by arith
  then show ?thesis
  proof cases
    case 1
    with assms(1) obtain rest where "b = ''Got it, '' @ first @ rest"
      by (auto simp: acknowledgement_def split: sum.splits)
    then show ?thesis
      using py_in_append [of first "''Got it, ''" rest] by simp
  next
    case 2
    with assms(1) obtain rest where "b = [] @ first @ rest"
      by (auto simp: acknowledgement_def split: sum.splits)
    then show ?thesis
      using py_in_append [of first "[]" rest] by simp
  next
    case 3
    with assms(1) obtain rest where "b = [] @ first @ rest"
      by (auto simp: acknowledgement_def split: sum.splits)
    then show ?thesis
      using py_in_append [of first "[]" rest] by simp
  next
    case 4
    with assms(1) obtain rest where "b = [] @ first @ rest"
      by (auto simp: acknowledgement_def split: sum.splits)
    then show ?thesis
      using py_in_append [of first "[]" rest] by simp
  next
    case 5
    with assms(1) obtain rest where "b = [] @ first @ rest"
      by (auto simp: acknowledgement_def split: sum.splits)
    then show ?thesis
      using py_in_append [of first "[]" rest] by simp
  qed
qed

text \<open>
  C7, at the step of the name. From the session after the greeting, the accepted name
  Jane Doe is stored and the step advances, but the acknowledgement greets the candidate
  as 'there': the first name was read before the name was stored, when the field was
  empty. The name Jane does not occur in the acknowledgement.
\<close>

theorem name_acknowledgement_says_there:
  "run greeting_session [(agreeing_client, ''hello'')] = name_step_session \<and>
   handle_turn agreeing_client name_step_session ''Jane Doe'' =
     Done jane_session
       ''Hi there! Thanks for sharing your full name. Next, Could you please share your email address?'' \<and>
   map_of (candidate_data jane_session) ''name'' = Some ''Jane Doe'' \<and>
   \<not> py_in ''Jane''
       ''Hi there! Thanks for sharing your full name. Next, Could you please share your email address?''"
proof -
  have "run greeting_session [(agreeing_client, ''hello'')] = name_step_session"
    using no_exit_6
    by (simp add: handle_turn_def Let_def greeting_session_def get_ai_response_def
        agreeing_client_def name_step_session_def)
  moreover have "handle_turn agreeing_client name_step_session ''Jane Doe'' =
     Done jane_session
       ''Hi there! Thanks for sharing your full name. Next, Could you please share your email address?''"
    using no_exit_3 jane_doe_name
    by (simp add: handle_turn_def Let_def data_collection_def name_step_session_def
        DATA_STEPS_def acknowledgement_def step_prompt_def candidate_first_name_def
        jane_session_def)
  moreover have "map_of (candidate_data jane_session) ''name'' = Some ''Jane Doe''"
    by (simp add: jane_session_def)
  moreover have "\<not> py_in ''Jane''
       ''Hi there! Thanks for sharing your full name. Next, Could you please share your email address?''"
    by simp
  ultimately show ?thesis
    by blast
qed

subsection \<open>Question generation\<close>















subsection \<open>The experience validator\<close>













text \<open>The floating point number of 0.1, as Python has it.\<close>

lemma binary64_one_tenth: "binary64 1 10 = Finite (3602879701896397 / 36028797018963968)"
proof -
  have l: "floor_log2 1 10 = - 4"
    by (simp add: floor_log2_def compute_floorlog)
  have r: "round_half_even (1 * 2 ^ 56) 10 = 7205759403792794"
    by (simp add: round_half_even_def Let_def)
  show ?thesis
    unfolding binary64_def l using r by (simp add: Let_def)
qed



































end
